theory Spec2Isabelle
  imports Complex_Main
begin

section \<open>The whiteboard host (src/whiteboard.ts)\<close>

text \<open>
  The host element keeps four pieces of state: the committed \<open>items\<close>, the pan offset
  \<open>canvasCoords\<close>, the draft \<open>currentDrawing\<close> and the name of the active tool
  \<open>currentTool\<close>. A JavaScript \<open>number\<close> is idealised as a \<open>real\<close>: the arithmetic of
  the handlers is written exactly as the source writes it, without the rounding of
  IEEE doubles and without the infinities. \<open>NaN\<close> is kept where the code tests a
  number for truth, which it does with the stroke width only.
\<close>

subsection \<open>Data\<close>

text \<open>
  A number that may be \<open>NaN\<close>: \<open>parseInt\<close> of the stroke-width slider returns one.
\<close>

datatype number = Number real | NaN

text \<open>
  \<open>RoughCanvasOptions\<close> comes from roughjs; only the three fields that the repository
  sets or reads are kept. An absent property is \<open>None\<close>.
\<close>

record RoughCanvasOptions =
  stroke :: "string option"
  strokeWidth :: "number option"
  fill :: "string option"

definition emptyOptions :: RoughCanvasOptions where
  "emptyOptions = \<lparr>stroke = None, strokeWidth = None, fill = None\<rparr>"

text \<open>
  The union \<open>WhiteboardItem\<close>. The fields of each variant, in the order of the type
  declarations: \<open>Rect x y width height options\<close>, \<open>Circle x y diameter options\<close>,
  \<open>Line x1 y1 x2 y2 options\<close>, \<open>Pen path color\<close> (the pen's options hold only an
  optional colour) and \<open>Move x y\<close>.
\<close>

datatype WhiteboardItem =
    Rect real real real real RoughCanvasOptions
  | Circle real real real RoughCanvasOptions
  | Line real real real real RoughCanvasOptions
  | Pen "(real \<times> real) list" "string option"
  | Move real real

fun kind :: "WhiteboardItem \<Rightarrow> string" where
  "kind (Rect _ _ _ _ _) = ''rect''"
| "kind (Circle _ _ _ _) = ''circle''"
| "kind (Line _ _ _ _ _) = ''line''"
| "kind (Pen _ _) = ''pen''"
| "kind (Move _ _) = ''move''"

record Coords =
  coord_x :: real
  coord_y :: real

record Whiteboard =
  items :: "WhiteboardItem list"
  canvasCoords :: Coords
  currentDrawing :: "WhiteboardItem option"
  currentTool :: string

definition initialWhiteboard :: Whiteboard where
  "initialWhiteboard =
     \<lparr>items = [], canvasCoords = \<lparr>coord_x = 0, coord_y = 0\<rparr>,
      currentDrawing = None, currentTool = ''none''\<rparr>"

subsection \<open>Pointer handlers\<close>

text \<open>
  Each handler mutates the fields of the element and, unless it returns early, ends with
  a call of \<open>draw()\<close>, which repaints the canvas from the state and writes none of the
  four fields. The model returns the state after the handler.

  \<open>handleDrawingStart\<close> first drops any draft, then switches on the active tool; a tool
  name outside the five cases leaves the draft undefined.
\<close>

definition handleDrawingStart :: "real \<Rightarrow> real \<Rightarrow> Whiteboard \<Rightarrow> Whiteboard" where
  "handleDrawingStart x y s =
     (let px = coord_x (canvasCoords s); py = coord_y (canvasCoords s);
          s0 = s\<lparr>currentDrawing := None\<rparr>
      in if currentTool s = ''rect'' then
           s0\<lparr>currentDrawing := Some (Rect (x - px) (y - py) 0 0 emptyOptions)\<rparr>
         else if currentTool s = ''circle'' then
           s0\<lparr>currentDrawing := Some (Circle (x - px) (y - py) 0 emptyOptions)\<rparr>
         else if currentTool s = ''line'' then
           s0\<lparr>currentDrawing :=
                Some (Line (x - px) (y - py) (x - px) (y - py) emptyOptions)\<rparr>
         else if currentTool s = ''pen'' then
           s0\<lparr>currentDrawing := Some (Pen [(x - px, y - py)] None)\<rparr>
         else if currentTool s = ''move'' then
           s0\<lparr>currentDrawing := Some (Move x y)\<rparr>
         else s0)"

text \<open>
  \<open>handleDrawingMove\<close> returns at once without a draft; otherwise it switches on the
  kind of the draft (not on the active tool) and updates the draft in place, or, for a
  \<open>move\<close> draft, the pan offset and the remembered pointer position.
\<close>

definition handleDrawingMove :: "real \<Rightarrow> real \<Rightarrow> Whiteboard \<Rightarrow> Whiteboard" where
  "handleDrawingMove x y s =
     (let px = coord_x (canvasCoords s); py = coord_y (canvasCoords s)
      in case currentDrawing s of
           None \<Rightarrow> s
         | Some (Rect currentX currentY w h opts) \<Rightarrow>
             s\<lparr>currentDrawing :=
                 Some (Rect currentX currentY (x - currentX - px) (y - currentY - py) opts)\<rparr>
         | Some (Circle x1 y1 d opts) \<Rightarrow>
             (let x2 = x - px; y2 = y - py; dx = x2 - x1; dy = y2 - y1
              in s\<lparr>currentDrawing :=
                     Some (Circle x1 y1 (sqrt (dx * dx + dy * dy) * 2) opts)\<rparr>)
         | Some (Line x1 y1 x2 y2 opts) \<Rightarrow>
             s\<lparr>currentDrawing := Some (Line x1 y1 (x - px) (y - py) opts)\<rparr>
         | Some (Pen path color) \<Rightarrow>
             s\<lparr>currentDrawing := Some (Pen (path @ [(x - px, y - py)]) color)\<rparr>
         | Some (Move startX startY) \<Rightarrow>
             (let moveX = x - startX; moveY = y - startY
              in s\<lparr>canvasCoords := \<lparr>coord_x = px + moveX, coord_y = py + moveY\<rparr>,
                    currentDrawing := Some (Move x y)\<rparr>))"

text \<open>
  \<open>handleDrawingEnd\<close> returns at once without a draft; otherwise it pushes the draft
  onto \<open>items\<close> unless its kind is \<open>move\<close>, and clears the draft. The active tool is
  not read.
\<close>

definition handleDrawingEnd :: "Whiteboard \<Rightarrow> Whiteboard" where
  "handleDrawingEnd s =
     (case currentDrawing s of
        None \<Rightarrow> s
      | Some d \<Rightarrow>
          (let s1 = (if kind d \<noteq> ''move'' then s\<lparr>items := items s @ [d]\<rparr> else s)
           in s1\<lparr>currentDrawing := None\<rparr>))"

definition handleTouchCancel :: "Whiteboard \<Rightarrow> Whiteboard" where
  "handleTouchCancel s =
     (case currentDrawing s of
        None \<Rightarrow> s
      | Some d \<Rightarrow> s\<lparr>currentDrawing := None\<rparr>)"

text \<open>
  \<open>handleToolChange\<close> stores the tool name; the rest of its body toggles a CSS class on
  the toolbar buttons.
\<close>

definition handleToolChange :: "string \<Rightarrow> Whiteboard \<Rightarrow> Whiteboard" where
  "handleToolChange tool s = s\<lparr>currentTool := tool\<rparr>"

text \<open>The operations of the viewer as events, and a run of events from a state.\<close>

datatype Event =
    DrawingStart real real
  | DrawingMove real real
  | DrawingEnd
  | TouchCancel
  | ToolChange string

fun handleEvent :: "Event \<Rightarrow> Whiteboard \<Rightarrow> Whiteboard" where
  "handleEvent (DrawingStart x y) s = handleDrawingStart x y s"
| "handleEvent (DrawingMove x y) s = handleDrawingMove x y s"
| "handleEvent DrawingEnd s = handleDrawingEnd s"
| "handleEvent TouchCancel s = handleTouchCancel s"
| "handleEvent (ToolChange tool) s = handleToolChange tool s"

definition run :: "Event list \<Rightarrow> Whiteboard \<Rightarrow> Whiteboard" where
  "run evs s = foldl (\<lambda>st ev. handleEvent ev st) s evs"

text \<open>
  A run of pointer-moves, and a gesture: pointer-down at the first position, a
  pointer-move at each further position, then pointer-up.
\<close>

definition moves :: "(real \<times> real) list \<Rightarrow> Whiteboard \<Rightarrow> Whiteboard" where
  "moves ms s = foldl (\<lambda>st p. handleDrawingMove (fst p) (snd p) st) s ms"

definition gesture :: "real \<times> real \<Rightarrow> (real \<times> real) list \<Rightarrow> Whiteboard \<Rightarrow> Whiteboard" where
  "gesture start ms s =
     handleDrawingEnd (moves ms (handleDrawingStart (fst start) (snd start) s))"

section \<open>Pen smoothing and rendering (src/whiteboard.ts)\<close>

datatype error = TypeError

definition average :: "real \<Rightarrow> real \<Rightarrow> real" where
  "average a b = (a + b) / 2"

text \<open>
  A point is a \<open>number[]\<close>; reading a component past its end gives \<open>undefined\<close>,
  here \<open>None\<close>.
\<close>

definition component :: "real list \<Rightarrow> nat \<Rightarrow> real option" where
  "component p i = (if i < length p then Some (p ! i) else None)"

text \<open>
  \<open>Number.prototype.toFixed(2)\<close> is a built-in of the language and is taken as the
  parameter \<open>toFixed\<close>. Calling it on \<open>undefined\<close> throws a \<open>TypeError\<close>;
  \<open>average\<close> of an \<open>undefined\<close> operand is \<open>NaN\<close>, which prints as \<open>NaN\<close>.
\<close>

definition fixed :: "(real \<Rightarrow> string) \<Rightarrow> real option \<Rightarrow> error + string" where
  "fixed toFixed v = (case v of None \<Rightarrow> Inl TypeError | Some r \<Rightarrow> Inr (toFixed r))"

definition averageFixed :: "(real \<Rightarrow> string) \<Rightarrow> real option \<Rightarrow> real option \<Rightarrow> string" where
  "averageFixed toFixed u v =
     (case u of
        None \<Rightarrow> ''NaN''
      | Some a \<Rightarrow> (case v of None \<Rightarrow> ''NaN'' | Some b \<Rightarrow> toFixed (average a b)))"

text \<open>One round of the \<open>for\<close> loop: the midpoint of \<open>points[i]\<close> and \<open>points[i + 1]\<close>.\<close>

definition segment :: "(real \<Rightarrow> string) \<Rightarrow> real list list \<Rightarrow> string \<Rightarrow> nat \<Rightarrow> string" where
  "segment toFixed points result i =
     (let a = points ! i; b = points ! (i + 1)
      in result @ averageFixed toFixed (component a 0) (component b 0) @ '','' @
         averageFixed toFixed (component a 1) (component b 1) @ '' '')"

text \<open>
  \<open>getSvgPathFromStroke\<close>: the guard on the length, the opening \<open>M ... Q ... T\<close>
  built from the first three points, the loop over \<open>i = 2, ..., len - 2\<close>, and the
  closing \<open>Z\<close> when the parameter \<open>closed\<close> (here \<open>isClosed\<close>) is true. The list is
  read only at indices below its length.
\<close>

definition getSvgPathFromStroke ::
  "(real \<Rightarrow> string) \<Rightarrow> real list list \<Rightarrow> bool \<Rightarrow> error + string" where
  "getSvgPathFromStroke toFixed points isClosed =
     (let len = length points
      in if len < 4 then Inr []
         else
           (let a = points ! 0; b = points ! 1; c = points ! 2
            in case fixed toFixed (component a 0) of
                 Inl e \<Rightarrow> Inl e
               | Inr a0 \<Rightarrow>
                  (case fixed toFixed (component a 1) of
                     Inl e \<Rightarrow> Inl e
                   | Inr a1 \<Rightarrow>
                      (case fixed toFixed (component b 0) of
                         Inl e \<Rightarrow> Inl e
                       | Inr b0 \<Rightarrow>
                          (case fixed toFixed (component b 1) of
                             Inl e \<Rightarrow> Inl e
                           | Inr b1 \<Rightarrow>
                              (let result0 =
                                     ''M'' @ a0 @ '','' @ a1 @ '' Q'' @ b0 @ '','' @ b1 @ '' '' @
                                     averageFixed toFixed (component b 0) (component c 0) @
                                     '','' @
                                     averageFixed toFixed (component b 1) (component c 1) @
                                     '' T'';
                                   result1 =
                                     foldl (segment toFixed points) result0 [2 ..< len - 1]
                               in Inr (if isClosed then result1 @ ''Z'' else result1)))))))"

text \<open>
  What \<open>drawItem\<close> hands to the drawing backend: one call of the rough canvas, or, for
  a pen item, one \<open>context.fill\<close> of a \<open>Path2D\<close> built from the path data, with the
  fill style in force. The \<open>switch\<close> has no case for a \<open>move\<close> draft, which draws
  nothing.
\<close>

datatype DrawCall =
    Rectangle real real real real RoughCanvasOptions
  | CircleCall real real real RoughCanvasOptions
  | LineCall real real real real RoughCanvasOptions
  | Fill string string

text \<open>
  \<open>getStroke\<close> is the outline function of the perfect-freehand library, called with
  fixed options; it is a parameter. \<open>color || "black"\<close> takes \<open>black\<close> for an absent
  or empty colour.
\<close>

definition drawItem ::
  "((real \<times> real) list \<Rightarrow> real list list) \<Rightarrow> (real \<Rightarrow> string) \<Rightarrow> Coords \<Rightarrow>
     WhiteboardItem \<Rightarrow> error + DrawCall list" where
  "drawItem getStroke toFixed coords item =
     (let px = coord_x coords; py = coord_y coords
      in case item of
           Rect x y w h opts \<Rightarrow> Inr [Rectangle (x + px) (y + py) w h opts]
         | Circle x y d opts \<Rightarrow> Inr [CircleCall (x + px) (y + py) d opts]
         | Line x1 y1 x2 y2 opts \<Rightarrow>
             Inr [LineCall (x1 + px) (y1 + py) (x2 + px) (y2 + py) opts]
         | Pen path color \<Rightarrow>
             (let outlinePoints = getStroke (map (\<lambda>p. (fst p + px, snd p + py)) path)
              in case getSvgPathFromStroke toFixed outlinePoints True of
                   Inl e \<Rightarrow> Inl e
                 | Inr pathData \<Rightarrow>
                     Inr [Fill pathData
                            (case color of
                               None \<Rightarrow> ''black''
                             | Some c \<Rightarrow> if c = [] then ''black'' else c)])
         | Move x y \<Rightarrow> Inr [])"

section \<open>The rectangle tool (src/tools/rect.ts)\<close>

text \<open>
  The tool is a plug-in of a later host, \<open>SimpleWhiteboard\<close>; the host and the item type
  are imported from \<open>lib/SimpleWhiteboardTool\<close>. From the uses in \<open>rect.ts\<close> an item
  has a \<open>kind\<close> and an \<open>id\<close>; \<open>RectItem\<close> adds the geometry and the options. The
  tool reads the host's draft through the cast \<open>as RectItem\<close>, so the model gives the
  host's items the rect fields and lets the kind be any string.
\<close>

record ToolItem =
  item_kind :: string
  item_id :: string

record RectItem = ToolItem +
  item_x :: real
  item_y :: real
  item_width :: real
  item_height :: real
  item_options :: RoughCanvasOptions

record BoundingRect =
  bound_x :: real
  bound_y :: real
  bound_width :: real
  bound_height :: real

record SimpleWhiteboard =
  board_items :: "RectItem list"
  board_currentDrawing :: "RectItem option"
  board_canvasCoords :: Coords

record SimpleWhiteboardToolRect =
  tool_stroke :: string
  tool_strokeWidth :: number
  tool_fill :: string

definition initialToolRect :: SimpleWhiteboardToolRect where
  "initialToolRect =
     \<lparr>tool_stroke = ''#000000'', tool_strokeWidth = Number 2, tool_fill = ''transparent''\<rparr>"

definition getToolName :: string where
  "getToolName = ''rect''"

text \<open>
  Modelled from the spec: the accessors of the host \<open>SimpleWhiteboard\<close>, which
  \<open>rect.ts\<close> calls and whose source is missing. The spec gives the host one draft, a
  pan offset and a sequence of committed shapes to which a commit appends, and takes
  the pan offset off the pointer position at pointer-down.
\<close>

definition getCurrentDrawing :: "SimpleWhiteboard \<Rightarrow> RectItem option" where
  "getCurrentDrawing sw = board_currentDrawing sw"

definition setCurrentDrawing :: "RectItem option \<Rightarrow> SimpleWhiteboard \<Rightarrow> SimpleWhiteboard" where
  "setCurrentDrawing d sw = sw\<lparr>board_currentDrawing := d\<rparr>"

definition getCanvasCoords :: "SimpleWhiteboard \<Rightarrow> Coords" where
  "getCanvasCoords sw = board_canvasCoords sw"

definition coordsFromCanvasCoords :: "real \<Rightarrow> real \<Rightarrow> SimpleWhiteboard \<Rightarrow> Coords" where
  "coordsFromCanvasCoords x y sw =
     \<lparr>coord_x = x - coord_x (board_canvasCoords sw),
      coord_y = y - coord_y (board_canvasCoords sw)\<rparr>"

definition addItem :: "RectItem \<Rightarrow> SimpleWhiteboard \<Rightarrow> SimpleWhiteboard" where
  "addItem item sw = sw\<lparr>board_items := board_items sw @ [item]\<rparr>"

text \<open>
  \<open>getBoundingRect\<close>. \<open>item.options.strokeWidth || 1\<close> takes \<open>1\<close> when the stroke
  width is falsy: absent, \<open>NaN\<close> or \<open>0\<close>. The result type is \<open>BoundingRect | null\<close>;
  this tool always returns a rectangle.
\<close>

definition getBoundingRect :: "RectItem \<Rightarrow> BoundingRect option" where
  "getBoundingRect item =
     (let strokeWidth =
            (case strokeWidth (item_options item) of
               None \<Rightarrow> 1
             | Some NaN \<Rightarrow> 1
             | Some (Number w) \<Rightarrow> if w = 0 then 1 else w);
          halfStrokeWidth = strokeWidth / 2
      in Some \<lparr>bound_x = item_x item - halfStrokeWidth,
               bound_y = item_y item - halfStrokeWidth,
               bound_width = item_width item + strokeWidth,
               bound_height = item_height item + strokeWidth\<rparr>)"

text \<open>
  The three drag handlers. \<open>getSimpleWhiteboardInstance()\<close> may give no host, in which
  case each handler returns at once: the host is an \<open>option\<close>. The identifier made by
  \<open>generateId()\<close> is the parameter \<open>itemId\<close>.
\<close>

definition rect_handleDrawingStart ::
  "SimpleWhiteboardToolRect \<Rightarrow> string \<Rightarrow> real \<Rightarrow> real \<Rightarrow> SimpleWhiteboard option \<Rightarrow>
     SimpleWhiteboard option" where
  "rect_handleDrawingStart tool itemId x y host =
     (case host of
        None \<Rightarrow> None
      | Some sw \<Rightarrow>
          (let c = coordsFromCanvasCoords x y sw;
               item = \<lparr>item_kind = getToolName, item_id = itemId,
                       item_x = coord_x c, item_y = coord_y c,
                       item_width = 0, item_height = 0,
                       item_options = \<lparr>stroke = Some (tool_stroke tool),
                                       strokeWidth = Some (tool_strokeWidth tool),
                                       fill = Some (tool_fill tool)\<rparr>\<rparr>
           in Some (setCurrentDrawing (Some item) sw)))"

definition rect_handleDrawingMove ::
  "real \<Rightarrow> real \<Rightarrow> SimpleWhiteboard option \<Rightarrow> SimpleWhiteboard option" where
  "rect_handleDrawingMove x y host =
     (case host of
        None \<Rightarrow> None
      | Some sw \<Rightarrow>
          (case getCurrentDrawing sw of
             None \<Rightarrow> Some sw
           | Some draft \<Rightarrow>
               if item_kind draft \<noteq> getToolName then Some sw
               else
                 (let currentX = item_x draft; currentY = item_y draft;
                      canvasX = coord_x (getCanvasCoords sw);
                      canvasY = coord_y (getCanvasCoords sw)
                  in Some (setCurrentDrawing
                             (Some (draft\<lparr>item_width := x - currentX - canvasX,
                                                   item_height := y - currentY - canvasY\<rparr>))
                             sw))))"

definition rect_handleDrawingEnd :: "SimpleWhiteboard option \<Rightarrow> SimpleWhiteboard option" where
  "rect_handleDrawingEnd host =
     (case host of
        None \<Rightarrow> None
      | Some sw \<Rightarrow>
          (case getCurrentDrawing sw of
             None \<Rightarrow> Some sw
           | Some draft \<Rightarrow>
               if item_kind draft \<noteq> getToolName then Some sw
               else Some (setCurrentDrawing None (addItem draft sw))))"

section \<open>Concrete boards and items\<close>

text \<open>
  A board panned by \<open>(2, 3)\<close> with one committed line, no draft and a given active
  tool; the same board with a draft in progress.
\<close>

definition pannedBoard :: "string \<Rightarrow> Whiteboard" where
  "pannedBoard tool =
     \<lparr>items = [Line 0 0 1 1 emptyOptions], canvasCoords = \<lparr>coord_x = 2, coord_y = 3\<rparr>,
      currentDrawing = None, currentTool = tool\<rparr>"

definition draftBoard :: "WhiteboardItem \<Rightarrow> Whiteboard" where
  "draftBoard d = (pannedBoard (kind d))\<lparr>currentDrawing := Some d\<rparr>"

text \<open>
  A rectangle is begun with the rect tool, dragged once, the circle tool is selected,
  and the pointer goes up.
\<close>

definition staleRectRun :: Whiteboard where
  "staleRectRun =
     run [ToolChange ''rect'', DrawingStart 3 4, DrawingMove 8 10, ToolChange ''circle'',
          DrawingEnd]
       initialWhiteboard"

text \<open>A rect item of the later host, with a given kind and stroke width.\<close>

definition rectItem :: "string \<Rightarrow> number option \<Rightarrow> RectItem" where
  "rectItem k w =
     \<lparr>item_kind = k, item_id = ''a'', item_x = 10, item_y = 20, item_width = 5,
      item_height = 8,
      item_options = \<lparr>stroke = Some ''#000000'', strokeWidth = w, fill = None\<rparr>\<rparr>"

definition rectBoard :: "RectItem option \<Rightarrow> SimpleWhiteboard" where
  "rectBoard d =
     \<lparr>board_items = [], board_currentDrawing = d,
      board_canvasCoords = \<lparr>coord_x = 2, coord_y = 3\<rparr>\<rparr>"

text \<open>
  Two outline functions and a printer. \<open>plainStroke\<close> returns the points of the pen
  path as they are; \<open>dotStroke\<close> surrounds each point of the pen path by four outline
  points, as a round cap surrounds the end of a stroke.
\<close>

definition plainStroke :: "(real \<times> real) list \<Rightarrow> real list list" where
  "plainStroke ps = map (\<lambda>p. [fst p, snd p]) ps"

definition dotStroke :: "(real \<times> real) list \<Rightarrow> real list list" where
  "dotStroke ps =
     concat (map (\<lambda>p. [[fst p - 3, snd p], [fst p, snd p - 3], [fst p + 3, snd p],
                          [fst p, snd p + 3]]) ps)"

definition plainFixed :: "real \<Rightarrow> string" where
  "plainFixed r = ''n''"

section \<open>Properties of the host\<close>

subsection \<open>One handler at a time\<close>

lemma handleDrawingEnd_draft: "currentDrawing (handleDrawingEnd s) = None"
  by (simp add: handleDrawingEnd_def Let_def split: option.splits)

lemma handleDrawingEnd_items:
  "currentDrawing s = Some d \<Longrightarrow>
   items (handleDrawingEnd s) = (if kind d = ''move'' then items s else items s @ [d])"
  by (simp add: handleDrawingEnd_def Let_def)

lemma handleDrawingStart_items: "items (handleDrawingStart x y s) = items s"
  by (simp add: handleDrawingStart_def Let_def)

lemma handleDrawingMove_items: "items (handleDrawingMove x y s) = items s"
  by (simp add: handleDrawingMove_def Let_def split: option.splits WhiteboardItem.splits)

lemma handleTouchCancel_eq: "handleTouchCancel s = s\<lparr>currentDrawing := None\<rparr>"
  by (cases "currentDrawing s") (simp_all add: handleTouchCancel_def)

lemma move_rect:
  "currentDrawing s = Some (Rect ax ay w h opts) \<Longrightarrow>
   handleDrawingMove x y s =
     s\<lparr>currentDrawing :=
         Some (Rect ax ay (x - ax - coord_x (canvasCoords s))
                 (y - ay - coord_y (canvasCoords s)) opts)\<rparr>"
  by (simp add: handleDrawingMove_def)

lemma move_line:
  "currentDrawing s = Some (Line ax ay ex ey opts) \<Longrightarrow>
   handleDrawingMove x y s =
     s\<lparr>currentDrawing :=
         Some (Line ax ay (x - coord_x (canvasCoords s)) (y - coord_y (canvasCoords s))
                 opts)\<rparr>"
  by (simp add: handleDrawingMove_def)

lemma move_move:
  "currentDrawing s = Some (Move lx ly) \<Longrightarrow>
   handleDrawingMove x y s =
     s\<lparr>canvasCoords := \<lparr>coord_x = coord_x (canvasCoords s) + (x - lx),
                         coord_y = coord_y (canvasCoords s) + (y - ly)\<rparr>,
       currentDrawing := Some (Move x y)\<rparr>"
  by (simp add: handleDrawingMove_def)

subsection \<open>A run of pointer-moves\<close>

lemma moves_snoc: "moves (ms @ [p]) s = handleDrawingMove (fst p) (snd p) (moves ms s)"
  by (simp add: moves_def)

lemma moves_rect:
  "currentDrawing s = Some (Rect ax ay w h opts) \<Longrightarrow>
   \<exists>w' h'. moves ms s = s\<lparr>currentDrawing := Some (Rect ax ay w' h' opts)\<rparr>"
proof (induction ms rule: rev_induct)
  case Nil
  then show ?case by (intro exI[of _ w] exI[of _ h]) (simp add: moves_def)
next
  case (snoc p ms)
  then obtain w' h' where
    st: "moves ms s = s\<lparr>currentDrawing := Some (Rect ax ay w' h' opts)\<rparr>" by blast
  show ?case unfolding moves_snoc st
    by (subst move_rect[where ax=ax and ay=ay and w=w' and h=h' and opts=opts]) auto
qed

lemma moves_line:
  "currentDrawing s = Some (Line ax ay ex ey opts) \<Longrightarrow>
   \<exists>ex' ey'. moves ms s = s\<lparr>currentDrawing := Some (Line ax ay ex' ey' opts)\<rparr>"
proof (induction ms rule: rev_induct)
  case Nil
  then show ?case by (intro exI[of _ ex] exI[of _ ey]) (simp add: moves_def)
next
  case (snoc p ms)
  then obtain ex' ey' where
    st: "moves ms s = s\<lparr>currentDrawing := Some (Line ax ay ex' ey' opts)\<rparr>" by blast
  show ?case unfolding moves_snoc st
    by (subst move_line[where ax=ax and ay=ay and ex=ex' and ey=ey' and opts=opts]) auto
qed

text \<open>
  With a \<open>move\<close> draft the deltas of the pointer-moves add up: after the moves the pan
  offset has advanced by the way from the position of the pointer-down to the last
  position, and the draft remembers that last position.
\<close>

lemma moves_move:
  "currentDrawing s = Some (Move sx sy) \<Longrightarrow>
   moves ms s =
     s\<lparr>canvasCoords :=
          \<lparr>coord_x = coord_x (canvasCoords s) + (fst (last ((sx, sy) # ms)) - sx),
           coord_y = coord_y (canvasCoords s) + (snd (last ((sx, sy) # ms)) - sy)\<rparr>,
        currentDrawing :=
          Some (Move (fst (last ((sx, sy) # ms))) (snd (last ((sx, sy) # ms))))\<rparr>"
proof (induction ms rule: rev_induct)
  case Nil
  then show ?case by (simp add: moves_def)
next
  case (snoc p ms)
  note st = snoc.IH[OF snoc.prems]
  show ?case unfolding moves_snoc
    by (subst st,
        subst move_move[where lx="fst (last ((sx, sy) # ms))"
            and ly="snd (last ((sx, sy) # ms))"]) auto
qed

lemma handleEvent_items:
  "items (handleEvent ev s) = items s \<or> (\<exists>it. items (handleEvent ev s) = items s @ [it])"
proof (cases ev)
  case DrawingEnd
  show ?thesis
  proof (cases "currentDrawing s")
    case None
    with DrawingEnd show ?thesis by (simp add: handleDrawingEnd_def)
  next
    case (Some d)
    with DrawingEnd show ?thesis by (simp add: handleDrawingEnd_items)
  qed
qed (simp_all add: handleDrawingStart_items handleDrawingMove_items handleTouchCancel_eq
       handleToolChange_def)

lemma run_snoc: "run (evs @ [ev]) s = handleEvent ev (run evs s)"
  by (simp add: run_def)

lemma run_items: "\<exists>added. items (run evs s) = items s @ added"
proof (induction evs rule: rev_induct)
  case Nil
  show ?case by (simp add: run_def)
next
  case (snoc ev evs)
  then obtain added where a: "items (run evs s) = items s @ added" by blast
  from handleEvent_items[of ev "run evs s"] show ?case
    unfolding run_snoc a by auto
qed

section \<open>The claims\<close>

subsection \<open>C7: pointer-up clears the draft\<close>

text \<open>
  Claim C7. After every call of \<open>handleDrawingEnd\<close> the draft is undefined, whether the
  draft was committed or not; in particular the draft is undefined after any run of
  events that ends with a pointer-up. The draft is a single optional field, so there is
  never more than one.
\<close>

theorem C7_draft_cleared_on_pointer_up:
  "currentDrawing (handleDrawingEnd s) = None \<and>
   currentDrawing (run (evs @ [DrawingEnd]) s) = None"
  by (simp add: run_snoc handleDrawingEnd_draft)

theorem C7_draft_cleared_on_pointer_up_witness:
  "currentDrawing (handleDrawingEnd (draftBoard (Rect 1 2 3 4 emptyOptions))) = None \<and>
   currentDrawing (handleDrawingEnd (draftBoard (Move 1 2))) = None"
  using C7_draft_cleared_on_pointer_up[of "draftBoard (Rect 1 2 3 4 emptyOptions)" "[]"]
    C7_draft_cleared_on_pointer_up[of "draftBoard (Move 1 2)" "[]"]
  by simp

subsection \<open>C9: events without a draft\<close>

text \<open>
  Claim C9. When no draft is active, \<open>handleDrawingMove\<close> and \<open>handleDrawingEnd\<close>
  return at once: nothing is thrown and the whole state, with the item list, the pan
  offset and the draft, is as before.
\<close>

theorem C9_no_draft_no_op:
  "currentDrawing s = None \<Longrightarrow> handleDrawingMove x y s = s \<and> handleDrawingEnd s = s"
  by (simp add: handleDrawingMove_def handleDrawingEnd_def)

theorem C9_no_draft_no_op_witness:
  "currentDrawing (pannedBoard ''rect'') = None \<and>
   handleDrawingMove 7 9 (pannedBoard ''rect'') = pannedBoard ''rect'' \<and>
   handleDrawingEnd (pannedBoard ''rect'') = pannedBoard ''rect''"
proof -
  have h: "currentDrawing (pannedBoard ''rect'') = None" by (simp add: pannedBoard_def)
  from C9_no_draft_no_op[OF h, of 7 9] h show ?thesis by simp
qed

subsection \<open>C10: touch cancel\<close>

text \<open>
  Claim C10. With a draft of any kind active, \<open>handleTouchCancel\<close> discards the draft
  and commits nothing: afterwards the draft is undefined and the item list, the pan
  offset and the active tool are as before.
\<close>

theorem C10_touch_cancel_discards:
  "currentDrawing s = Some d \<Longrightarrow>
   currentDrawing (handleTouchCancel s) = None \<and>
   items (handleTouchCancel s) = items s \<and>
   canvasCoords (handleTouchCancel s) = canvasCoords s \<and>
   currentTool (handleTouchCancel s) = currentTool s"
  by (simp add: handleTouchCancel_eq)

theorem C10_touch_cancel_discards_witness:
  "currentDrawing (draftBoard (Circle 1 2 3 emptyOptions)) = Some (Circle 1 2 3 emptyOptions) \<and>
   handleTouchCancel (draftBoard (Circle 1 2 3 emptyOptions)) = pannedBoard ''circle''"
proof -
  have h: "currentDrawing (draftBoard (Circle 1 2 3 emptyOptions)) =
             Some (Circle 1 2 3 emptyOptions)"
    by (simp add: draftBoard_def)
  from C10_touch_cancel_discards[OF h] h show ?thesis
    by (simp add: draftBoard_def pannedBoard_def)
qed

subsection \<open>C6: the item list only grows at its end\<close>

text \<open>
  Claim C6. Each operation of the viewer (pointer-down, pointer-move, pointer-up, touch
  cancel, tool change) leaves the item list as it is or appends exactly one element at
  its end; so after any run of operations the old item list is a prefix of the new one:
  no committed item is changed, moved or removed.
\<close>

theorem C6_items_append_only:
  "(items (handleEvent ev s) = items s \<or>
      (\<exists>it. items (handleEvent ev s) = items s @ [it])) \<and>
   (\<exists>added. items (run evs s) = items s @ added)"
  using handleEvent_items[of ev s] run_items[of evs s] by blast

theorem C6_items_append_only_witness:
  "items (handleEvent DrawingEnd (draftBoard (Rect 1 2 3 4 emptyOptions))) =
     items (draftBoard (Rect 1 2 3 4 emptyOptions)) @ [Rect 1 2 3 4 emptyOptions] \<and>
   items (handleEvent (DrawingMove 5 6) (draftBoard (Rect 1 2 3 4 emptyOptions))) =
     items (draftBoard (Rect 1 2 3 4 emptyOptions))"
proof -
  have "items (handleEvent DrawingEnd (draftBoard (Rect 1 2 3 4 emptyOptions))) \<noteq>
          items (draftBoard (Rect 1 2 3 4 emptyOptions))"
    by (simp add: draftBoard_def pannedBoard_def handleDrawingEnd_def)
  with C6_items_append_only[of DrawingEnd "draftBoard (Rect 1 2 3 4 emptyOptions)" "[]"]
  have "\<exists>it. items (handleEvent DrawingEnd (draftBoard (Rect 1 2 3 4 emptyOptions))) =
              items (draftBoard (Rect 1 2 3 4 emptyOptions)) @ [it]"
    by blast
  then show ?thesis
    by (simp add: draftBoard_def pannedBoard_def handleDrawingEnd_def handleDrawingMove_def)
qed

subsection \<open>C5: the circle follows the pointer\<close>

text \<open>
  Claim C5. A pointer-move at \<open>(x, y)\<close> while a circle draft with anchor \<open>(x1, y1)\<close>
  is active sets the diameter of the draft to twice the Euclidean distance between the
  anchor and the pointer position less the pan offset, that is, twice the square root of
  the sum of the squares of the two coordinate differences; nothing else changes.
\<close>

theorem C5_circle_diameter:
  "currentDrawing s = Some (Circle x1 y1 d opts) \<Longrightarrow>
   handleDrawingMove x y s =
     s\<lparr>currentDrawing :=
         Some (Circle x1 y1
                 (2 * sqrt (((x - coord_x (canvasCoords s)) - x1)\<^sup>2 +
                            ((y - coord_y (canvasCoords s)) - y1)\<^sup>2))
                 opts)\<rparr>"
  by (simp add: handleDrawingMove_def Let_def power2_eq_square)

theorem C5_circle_diameter_witness:
  "currentDrawing (draftBoard (Circle 1 1 0 emptyOptions)) = Some (Circle 1 1 0 emptyOptions) \<and>
   handleDrawingMove 6 8 (draftBoard (Circle 1 1 0 emptyOptions)) =
     draftBoard (Circle 1 1 10 emptyOptions)"
proof -
  have h: "currentDrawing (draftBoard (Circle 1 1 0 emptyOptions)) =
             Some (Circle 1 1 0 emptyOptions)"
    by (simp add: draftBoard_def)
  have c: "canvasCoords (draftBoard (Circle 1 1 0 emptyOptions)) = \<lparr>coord_x = 2, coord_y = 3\<rparr>"
    by (simp add: draftBoard_def pannedBoard_def)
  from C5_circle_diameter[OF h, of 6 8] show ?thesis
    unfolding c using h by (simp add: draftBoard_def pannedBoard_def)
qed

subsection \<open>C2: the geometry committed by a rect or line gesture\<close>

lemma start_rect:
  "currentTool s = ''rect'' \<Longrightarrow>
   handleDrawingStart x y s =
     s\<lparr>currentDrawing :=
         Some (Rect (x - coord_x (canvasCoords s)) (y - coord_y (canvasCoords s)) 0 0
                 emptyOptions)\<rparr>"
  by (simp add: handleDrawingStart_def Let_def)

lemma start_line:
  "currentTool s = ''line'' \<Longrightarrow>
   handleDrawingStart x y s =
     s\<lparr>currentDrawing :=
         Some (Line (x - coord_x (canvasCoords s)) (y - coord_y (canvasCoords s))
                 (x - coord_x (canvasCoords s)) (y - coord_y (canvasCoords s)) emptyOptions)\<rparr>"
  by (simp add: handleDrawingStart_def Let_def)

lemma gesture_rect:
  assumes t: "currentTool s = ''rect''"
  shows "gesture (sx, sy) (ms @ [(mx, my)]) s =
     s\<lparr>items := items s @
          [Rect (sx - coord_x (canvasCoords s)) (sy - coord_y (canvasCoords s))
             (mx - (sx - coord_x (canvasCoords s)) - coord_x (canvasCoords s))
             (my - (sy - coord_y (canvasCoords s)) - coord_y (canvasCoords s))
             emptyOptions],
        currentDrawing := None\<rparr>"
proof -
  let ?ax = "sx - coord_x (canvasCoords s)" and ?ay = "sy - coord_y (canvasCoords s)"
  let ?s0 = "handleDrawingStart sx sy s"
  have d0: "currentDrawing ?s0 = Some (Rect ?ax ?ay 0 0 emptyOptions)"
    by (simp add: start_rect[OF t])
  obtain w h where
    m: "moves ms ?s0 = ?s0\<lparr>currentDrawing := Some (Rect ?ax ?ay w h emptyOptions)\<rparr>"
    using moves_rect[OF d0] by blast
  have "moves (ms @ [(mx, my)]) ?s0 =
          s\<lparr>currentDrawing := Some (Rect ?ax ?ay (mx - ?ax - coord_x (canvasCoords s))
                 (my - ?ay - coord_y (canvasCoords s)) emptyOptions)\<rparr>"
    unfolding moves_snoc m
    by (subst move_rect[where ax="?ax" and ay="?ay" and w=w and h=h and opts=emptyOptions])
       (simp_all add: start_rect[OF t])
  then show ?thesis
    by (simp add: gesture_def handleDrawingEnd_def)
qed

lemma gesture_line:
  assumes t: "currentTool s = ''line''"
  shows "gesture (sx, sy) (ms @ [(mx, my)]) s =
     s\<lparr>items := items s @
          [Line (sx - coord_x (canvasCoords s)) (sy - coord_y (canvasCoords s))
             (mx - coord_x (canvasCoords s)) (my - coord_y (canvasCoords s))
             emptyOptions],
        currentDrawing := None\<rparr>"
proof -
  let ?ax = "sx - coord_x (canvasCoords s)" and ?ay = "sy - coord_y (canvasCoords s)"
  let ?s0 = "handleDrawingStart sx sy s"
  have d0: "currentDrawing ?s0 = Some (Line ?ax ?ay ?ax ?ay emptyOptions)"
    by (simp add: start_line[OF t])
  obtain ex ey where
    m: "moves ms ?s0 = ?s0\<lparr>currentDrawing := Some (Line ?ax ?ay ex ey emptyOptions)\<rparr>"
    using moves_line[OF d0] by blast
  have "moves (ms @ [(mx, my)]) ?s0 =
          s\<lparr>currentDrawing := Some (Line ?ax ?ay (mx - coord_x (canvasCoords s))
                 (my - coord_y (canvasCoords s)) emptyOptions)\<rparr>"
    unfolding moves_snoc m
    by (subst move_line[where ax="?ax" and ay="?ay" and ex=ex and ey=ey and opts=emptyOptions])
       (simp_all add: start_line[OF t])
  then show ?thesis
    by (simp add: gesture_def handleDrawingEnd_def)
qed

text \<open>
  The rect tool of the later host computes the same width and height on a pointer-move:
  the pointer position less the anchor of the draft less the pan offset.
\<close>

lemma rect_tool_move:
  "getCurrentDrawing sw = Some r \<Longrightarrow> item_kind r = getToolName \<Longrightarrow>
   rect_handleDrawingMove x y (Some sw) =
     Some (sw\<lparr>board_currentDrawing :=
                Some (r\<lparr>item_width := x - item_x r - coord_x (board_canvasCoords sw),
                        item_height := y - item_y r - coord_y (board_canvasCoords sw)\<rparr>)\<rparr>)"
  by (simp add: rect_handleDrawingMove_def setCurrentDrawing_def getCanvasCoords_def)

text \<open>
  Claim C2. Take a gesture with the rect or the line tool: pointer-down at \<open>(sx, sy)\<close>,
  any pointer-moves, a last pointer-move at \<open>(mx, my)\<close>, pointer-up. With \<open>(px, py)\<close>
  the pan offset and \<open>(anchorX, anchorY) = (sx - px, sy - py)\<close>, the gesture appends
  exactly one record and changes nothing else: for the rect tool the rectangle at the
  anchor of width \<open>mx - anchorX - px\<close> and height \<open>my - anchorY - py\<close>, for the line
  tool the line from the anchor to \<open>(mx - px, my - py)\<close>.
\<close>

theorem C2_committed_geometry:
  assumes "px = coord_x (canvasCoords s)" and "py = coord_y (canvasCoords s)"
    and "anchorX = sx - px" and "anchorY = sy - py"
  shows "(currentTool s = ''rect'' \<longrightarrow>
            gesture (sx, sy) (ms @ [(mx, my)]) s =
              s\<lparr>items := items s @
                   [Rect anchorX anchorY (mx - anchorX - px) (my - anchorY - py) emptyOptions],
                 currentDrawing := None\<rparr>) \<and>
         (currentTool s = ''line'' \<longrightarrow>
            gesture (sx, sy) (ms @ [(mx, my)]) s =
              s\<lparr>items := items s @ [Line anchorX anchorY (mx - px) (my - py) emptyOptions],
                 currentDrawing := None\<rparr>)"
  using assms gesture_rect[of s sx sy ms mx my] gesture_line[of s sx sy ms mx my] by simp

theorem C2_committed_geometry_witness:
  "currentTool (pannedBoard ''rect'') = ''rect'' \<and>
   gesture (10, 20) [(11, 21), (15, 28)] (pannedBoard ''rect'') =
     (pannedBoard ''rect'')\<lparr>items := [Line 0 0 1 1 emptyOptions, Rect 8 17 5 8 emptyOptions]\<rparr> \<and>
   currentTool (pannedBoard ''line'') = ''line'' \<and>
   gesture (10, 20) [(11, 21), (15, 28)] (pannedBoard ''line'') =
     (pannedBoard ''line'')\<lparr>items := [Line 0 0 1 1 emptyOptions, Line 8 17 13 25 emptyOptions]\<rparr>"
proof -
  have r: "(2::real) = coord_x (canvasCoords (pannedBoard ''rect''))"
          "(3::real) = coord_y (canvasCoords (pannedBoard ''rect''))"
    and l: "(2::real) = coord_x (canvasCoords (pannedBoard ''line''))"
           "(3::real) = coord_y (canvasCoords (pannedBoard ''line''))"
    and a: "(8::real) = 10 - 2" "(17::real) = 20 - 3"
    by (simp_all add: pannedBoard_def)
  from C2_committed_geometry[OF r a, of "[(11, 21)]" 15 28]
       C2_committed_geometry[OF l a, of "[(11, 21)]" 15 28]
  show ?thesis by (simp add: pannedBoard_def)
qed

subsection \<open>C3: the move tool\<close>

lemma start_move:
  "currentTool s = ''move'' \<Longrightarrow>
   handleDrawingStart x y s = s\<lparr>currentDrawing := Some (Move x y)\<rparr>"
  by (simp add: handleDrawingStart_def Let_def)

lemma stage_move:
  assumes t: "currentTool s = ''move''"
  shows "moves ms (handleDrawingStart sx sy s) =
     s\<lparr>canvasCoords :=
          \<lparr>coord_x = coord_x (canvasCoords s) + (fst (last ((sx, sy) # ms)) - sx),
           coord_y = coord_y (canvasCoords s) + (snd (last ((sx, sy) # ms)) - sy)\<rparr>,
        currentDrawing :=
          Some (Move (fst (last ((sx, sy) # ms))) (snd (last ((sx, sy) # ms))))\<rparr>"
proof -
  have d0: "currentDrawing (handleDrawingStart sx sy s) = Some (Move sx sy)"
    by (simp add: start_move[OF t])
  show ?thesis
    by (subst moves_move[OF d0]) (simp add: start_move[OF t])
qed

lemma gesture_move:
  assumes t: "currentTool s = ''move''"
  shows "gesture (sx, sy) ms s =
     s\<lparr>canvasCoords :=
          \<lparr>coord_x = coord_x (canvasCoords s) + (fst (last ((sx, sy) # ms)) - sx),
           coord_y = coord_y (canvasCoords s) + (snd (last ((sx, sy) # ms)) - sy)\<rparr>,
        currentDrawing := None\<rparr>"
  by (simp add: gesture_def stage_move[OF t] handleDrawingEnd_def)

text \<open>
  Claim C3. Take a gesture with the move tool, begun at \<open>(sx, sy)\<close>. At every stage of
  it (after the pointer-down and any pointer-moves \<open>ms\<close>) the item list is the one
  from before the gesture; a further pointer-move at \<open>(x, y)\<close> advances the pan offset
  by the way of the pointer since the previous event of the gesture; and after the
  pointer-up the state is the one from before the gesture except for the pan offset
  (advanced by the way from the pointer-down to the last position) and for the draft,
  which is undefined.
\<close>

theorem C3_move_tool_only_pans:
  assumes "currentTool s = ''move''"
  shows "items (moves ms (handleDrawingStart sx sy s)) = items s \<and>
         canvasCoords (moves (ms @ [(x, y)]) (handleDrawingStart sx sy s)) =
           \<lparr>coord_x = coord_x (canvasCoords (moves ms (handleDrawingStart sx sy s))) +
                        (x - fst (last ((sx, sy) # ms))),
            coord_y = coord_y (canvasCoords (moves ms (handleDrawingStart sx sy s))) +
                        (y - snd (last ((sx, sy) # ms)))\<rparr> \<and>
         gesture (sx, sy) ms s =
           s\<lparr>canvasCoords :=
                \<lparr>coord_x = coord_x (canvasCoords s) + (fst (last ((sx, sy) # ms)) - sx),
                 coord_y = coord_y (canvasCoords s) + (snd (last ((sx, sy) # ms)) - sy)\<rparr>,
              currentDrawing := None\<rparr>"
proof (intro conjI)
  show "items (moves ms (handleDrawingStart sx sy s)) = items s"
    by (simp add: stage_move[OF assms])
  show "canvasCoords (moves (ms @ [(x, y)]) (handleDrawingStart sx sy s)) =
           \<lparr>coord_x = coord_x (canvasCoords (moves ms (handleDrawingStart sx sy s))) +
                        (x - fst (last ((sx, sy) # ms))),
            coord_y = coord_y (canvasCoords (moves ms (handleDrawingStart sx sy s))) +
                        (y - snd (last ((sx, sy) # ms)))\<rparr>"
    by (simp add: stage_move[OF assms])
  show "gesture (sx, sy) ms s =
           s\<lparr>canvasCoords :=
                \<lparr>coord_x = coord_x (canvasCoords s) + (fst (last ((sx, sy) # ms)) - sx),
                 coord_y = coord_y (canvasCoords s) + (snd (last ((sx, sy) # ms)) - sy)\<rparr>,
              currentDrawing := None\<rparr>"
    by (rule gesture_move[OF assms])
qed

theorem C3_move_tool_only_pans_witness:
  "currentTool (pannedBoard ''move'') = ''move'' \<and>
   items (moves [(12, 25)] (handleDrawingStart 10 20 (pannedBoard ''move''))) =
     [Line 0 0 1 1 emptyOptions] \<and>
   gesture (10, 20) [(12, 25), (11, 21)] (pannedBoard ''move'') =
     (pannedBoard ''move'')\<lparr>canvasCoords := \<lparr>coord_x = 3, coord_y = 4\<rparr>\<rparr>"
proof -
  have t: "currentTool (pannedBoard ''move'') = ''move''"
    by (simp add: pannedBoard_def)
  from C3_move_tool_only_pans[OF t, of "[(12, 25)]" 10 20 11 21]
       C3_move_tool_only_pans[OF t, of "[(12, 25), (11, 21)]" 10 20 0 0]
  show ?thesis by (simp add: pannedBoard_def)
qed

subsection \<open>C4: short outlines\<close>

text \<open>
  The guard is sharp: four well-formed points already give a path, and a point without
  coordinates among the first two makes \<open>toFixed\<close> throw.
\<close>

lemma getSvgPathFromStroke_four:
  "getSvgPathFromStroke plainFixed [[0, 0], [1, 0], [1, 1], [0, 1]] True =
     Inr ''Mn,n Qn,n n,n Tn,n Z''"
  by (simp add: getSvgPathFromStroke_def fixed_def component_def averageFixed_def
      segment_def plainFixed_def Let_def)

lemma getSvgPathFromStroke_throws:
  "getSvgPathFromStroke plainFixed [[], [1, 0], [1, 1], [0, 1]] True = Inl TypeError"
  by (simp add: getSvgPathFromStroke_def fixed_def component_def Let_def)

text \<open>
  Claim C4 as it is worded fails for the pen item's own point list. The list that
  reaches \<open>getSvgPathFromStroke\<close> is not the path of the pen item but the outline that
  \<open>getStroke\<close> makes of it, and an outline has more points than the path it surrounds:
  with \<open>dotStroke\<close> a pen item of one point, and one of three points, are filled with
  a path that is not empty.
\<close>

theorem C4_short_pen_path_counterexample:
  "length [(1, 1) :: real \<times> real] < 4 \<and>
   drawItem dotStroke plainFixed \<lparr>coord_x = 2, coord_y = 3\<rparr> (Pen [(1, 1)] None) =
     Inr [Fill ''Mn,n Qn,n n,n Tn,n Z'' ''black''] \<and>
   length [(1, 1), (2, 2), (3, 3) :: real \<times> real] < 4 \<and>
   drawItem dotStroke plainFixed \<lparr>coord_x = 2, coord_y = 3\<rparr>
       (Pen [(1, 1), (2, 2), (3, 3)] None) \<noteq>
     Inr [Fill [] ''black'']"
  by (simp add: drawItem_def dotStroke_def getSvgPathFromStroke_def fixed_def component_def
      averageFixed_def segment_def plainFixed_def Let_def)

text \<open>
  Claim C4, amended. For a list of fewer than four points \<open>getSvgPathFromStroke\<close>
  returns the empty string and throws nothing. A pen item is rendered from the outline
  that \<open>getStroke\<close> returns for its shifted path: when that outline has fewer than four
  points, the pen item is rendered as one fill of the empty path, without an error.
\<close>

theorem C4_short_outline_empty_path:
  "(length points < 4 \<longrightarrow> getSvgPathFromStroke toFixed points isClosed = Inr []) \<and>
   (length (getStroke (map (\<lambda>p. (fst p + coord_x c, snd p + coord_y c)) path)) < 4 \<longrightarrow>
      drawItem getStroke toFixed c (Pen path color) =
        Inr [Fill [] (case color of None \<Rightarrow> ''black''
                      | Some col \<Rightarrow> if col = [] then ''black'' else col)])"
  by (simp add: getSvgPathFromStroke_def drawItem_def Let_def)

theorem C4_short_outline_empty_path_witness:
  "length [[1, 2], [3, 4], [5, 6 :: real]] < 4 \<and>
   getSvgPathFromStroke plainFixed [[1, 2], [3, 4], [5, 6]] True = Inr [] \<and>
   drawItem plainStroke plainFixed \<lparr>coord_x = 2, coord_y = 3\<rparr>
       (Pen [(1, 1), (2, 2), (3, 3)] None) =
     Inr [Fill [] ''black'']"
  using C4_short_outline_empty_path[of "[[1, 2], [3, 4], [5, 6]]" plainFixed True plainStroke
      "\<lparr>coord_x = 2, coord_y = 3\<rparr>" "[(1, 1), (2, 2), (3, 3)]" None]
  by (simp add: plainStroke_def)

subsection \<open>C8: the bounding box of a rect item\<close>

text \<open>
  Where the options carry a stroke width other than \<open>0\<close>, or none, the box is the
  geometry of the item padded by half the stroke width on each side, with \<open>1\<close> for an
  absent stroke width.
\<close>

lemma getBoundingRect_given:
  "strokeWidth (item_options item) = Some (Number w) \<Longrightarrow> w \<noteq> 0 \<Longrightarrow>
   getBoundingRect item =
     Some \<lparr>bound_x = item_x item - w / 2, bound_y = item_y item - w / 2,
           bound_width = item_width item + w, bound_height = item_height item + w\<rparr>"
  by (simp add: getBoundingRect_def Let_def)

lemma getBoundingRect_omitted:
  "strokeWidth (item_options item) = None \<Longrightarrow>
   getBoundingRect item =
     Some \<lparr>bound_x = item_x item - 1 / 2, bound_y = item_y item - 1 / 2,
           bound_width = item_width item + 1, bound_height = item_height item + 1\<rparr>"
  by (simp add: getBoundingRect_def Let_def)

lemma getBoundingRect_default_tool:
  "getBoundingRect (rectItem ''rect'' (Some (tool_strokeWidth initialToolRect))) =
     Some \<lparr>bound_x = 9, bound_y = 19, bound_width = 7, bound_height = 10\<rparr>"
  by (simp add: getBoundingRect_def rectItem_def initialToolRect_def)

text \<open>
  Claim C8 says that the box of every rect item is its geometry padded by half the
  stroke width, with a stroke width of \<open>1\<close> when the options omit it. The code departs
  from that at a stroke width of \<open>0\<close>, which the options do not omit: the item
  \<open>rectItem ''rect'' (Some (Number 0))\<close> lies at \<open>(10, 20)\<close> and measures \<open>5\<close> by
  \<open>8\<close>; padded by half its stroke width the box is that same rectangle, and
  \<open>getBoundingRect\<close> returns the box of a stroke width of \<open>1\<close>, because \<open>||\<close> takes
  the \<open>0\<close> for an omitted value.
\<close>

theorem C8_zero_stroke_width_padded_as_one:
  "strokeWidth (item_options (rectItem ''rect'' (Some (Number 0)))) = Some (Number 0) \<and>
   getBoundingRect (rectItem ''rect'' (Some (Number 0))) =
     Some \<lparr>bound_x = 19 / 2, bound_y = 39 / 2, bound_width = 6, bound_height = 9\<rparr> \<and>
   getBoundingRect (rectItem ''rect'' (Some (Number 0))) \<noteq>
     Some \<lparr>bound_x = 10 - 0 / 2, bound_y = 20 - 0 / 2, bound_width = 5 + 0,
           bound_height = 8 + 0\<rparr>"
  by (simp add: getBoundingRect_def rectItem_def)

subsection \<open>C1: a draft of another kind than the active tool\<close>

text \<open>
  Claim C1 as it is worded fails on both files. In \<open>staleRectRun\<close> a rectangle is
  begun with the rect tool, the circle tool is selected, and the pointer goes up: the
  rectangle is in the item list although the active tool is \<open>circle\<close>. The rect tool
  of the later host, handed a draft of kind \<open>circle\<close>, does not commit it, and does not
  discard it either: the draft stays.
\<close>

theorem C1_stale_draft_counterexample:
  "items staleRectRun = [Rect 3 4 5 6 emptyOptions] \<and>
   currentTool staleRectRun = ''circle'' \<and>
   kind (Rect 3 4 5 6 emptyOptions) \<noteq> currentTool staleRectRun \<and>
   rect_handleDrawingEnd (Some (rectBoard (Some (rectItem ''circle'' None)))) =
     Some (rectBoard (Some (rectItem ''circle'' None)))"
  by (simp add: staleRectRun_def run_def initialWhiteboard_def handleToolChange_def
      handleDrawingStart_def handleDrawingMove_def handleDrawingEnd_def Let_def
      rect_handleDrawingEnd_def getCurrentDrawing_def getToolName_def rectBoard_def
      rectItem_def)

text \<open>
  Claim C1, amended. On pointer-up the host of \<open>whiteboard.ts\<close> does not read the
  active tool: whatever tool has been selected since the pointer-down, it appends the
  draft to the item list unless the kind of the draft is \<open>move\<close>, and it clears the
  draft. The rect tool of \<open>rect.ts\<close> never appends a draft whose kind is not its own
  name: its \<open>handleDrawingEnd\<close> then returns with the item list and the draft as they
  were.
\<close>

theorem C1_pointer_up_and_active_tool:
  "(currentDrawing s = Some d \<longrightarrow>
      items (handleDrawingEnd (handleToolChange tool s)) =
        (if kind d = ''move'' then items s else items s @ [d]) \<and>
      currentDrawing (handleDrawingEnd (handleToolChange tool s)) = None) \<and>
   (getCurrentDrawing sw = Some r \<and> item_kind r \<noteq> getToolName \<longrightarrow>
      rect_handleDrawingEnd (Some sw) = Some sw)"
  by (simp add: handleDrawingEnd_def handleToolChange_def Let_def rect_handleDrawingEnd_def)

theorem C1_pointer_up_and_active_tool_witness:
  "currentDrawing (draftBoard (Rect 1 2 3 4 emptyOptions)) = Some (Rect 1 2 3 4 emptyOptions) \<and>
   items (handleDrawingEnd (handleToolChange ''pen'' (draftBoard (Rect 1 2 3 4 emptyOptions)))) =
     [Line 0 0 1 1 emptyOptions, Rect 1 2 3 4 emptyOptions] \<and>
   getCurrentDrawing (rectBoard (Some (rectItem ''line'' None))) = Some (rectItem ''line'' None) \<and>
   item_kind (rectItem ''line'' None) \<noteq> getToolName \<and>
   board_items (the (rect_handleDrawingEnd (Some (rectBoard (Some (rectItem ''line'' None)))))) = []"
proof -
  have h: "currentDrawing (draftBoard (Rect 1 2 3 4 emptyOptions)) =
             Some (Rect 1 2 3 4 emptyOptions)"
    by (simp add: draftBoard_def)
  have g: "getCurrentDrawing (rectBoard (Some (rectItem ''line'' None))) =
             Some (rectItem ''line'' None) \<and>
           item_kind (rectItem ''line'' None) \<noteq> getToolName"
    by (simp add: getCurrentDrawing_def rectBoard_def rectItem_def getToolName_def)
  from C1_pointer_up_and_active_tool[of "draftBoard (Rect 1 2 3 4 emptyOptions)"
      "Rect 1 2 3 4 emptyOptions" "''pen''" "rectBoard (Some (rectItem ''line'' None))"
      "rectItem ''line'' None"] h g
  show ?thesis by (simp add: draftBoard_def pannedBoard_def rectBoard_def)
qed

end
